theory Spec2Isabelle
  imports Complex_Main
begin

section \<open>SmartFit AI: the helper functions and page handlers of app.py\<close>

text \<open>
  The estimation logic of \<^verbatim>\<open>app.py\<close> is a handful of helper functions
  (\<^verbatim>\<open>calculate_bmi\<close>, \<^verbatim>\<open>calculate_calories_burned\<close>,
  \<^verbatim>\<open>get_workout_recommendations\<close>, \<^verbatim>\<open>get_diet_plan\<close>) and the
  bodies of four button handlers.  Each is translated below as a HOL function.

  Conventions of the embedding:
  \<^item> a Python \<^verbatim>\<open>dict\<close> literal is an association list in the order of the source,
    read with \<open>map_of\<close>; \<^verbatim>\<open>d[k]\<close> is \<open>dict_index\<close> (it raises \<^verbatim>\<open>KeyError\<close>),
    \<^verbatim>\<open>d.get(k, v)\<close> is \<open>dict_get\<close>;
  \<^item> an exception is the left injection of a sum, and the arguments of a call are
    evaluated before the call, left to right, as Python does;
  \<^item> Python numbers are modelled by exact arithmetic: \<^verbatim>\<open>int\<close> is \<open>int\<close> and
    \<^verbatim>\<open>float\<close> is \<open>real\<close>.  The rounding error of IEEE-754 double operations is
    not part of the model; \<^verbatim>\<open>round(x, 2)\<close> is rounding to the nearest hundredth,
    ties to the even neighbour.
\<close>

subsection \<open>Exceptions and dictionaries\<close>

datatype py_error = KeyError | ZeroDivisionError

definition dict_index :: "('k \<times> 'v) list \<Rightarrow> 'k \<Rightarrow> py_error + 'v" where
  "dict_index d k = (case map_of d k of None \<Rightarrow> Inl KeyError | Some v \<Rightarrow> Inr v)"

definition dict_get :: "('k \<times> 'v) list \<Rightarrow> 'k \<Rightarrow> 'v \<Rightarrow> 'v" where
  "dict_get d k dflt = (case map_of d k of None \<Rightarrow> dflt | Some v \<Rightarrow> v)"

subsection \<open>Workout menus\<close>

definition workouts :: "(int \<times> (string \<times> string list) list) list" where
  "workouts =
    [(0, [(''High'', [''HIIT Training (45 min)'', ''Marathon Running (90 min)'',
                      ''CrossFit WOD (60 min)'', ''Olympic Lifting (75 min)'']),
          (''Medium'', [''Tempo Running (60 min)'', ''Circuit Training (45 min)'',
                        ''Swimming (60 min)'']),
          (''Low'', [''Easy Run (30 min)'', ''Yoga (45 min)'', ''Stretching (20 min)''])]),
     (1, [(''High'', [''Heavy Compound Lifts (75 min)'', ''Powerlifting Session (90 min)'',
                      ''Strongman Training (60 min)'']),
          (''Medium'', [''Hypertrophy Training (60 min)'', ''Push/Pull Workout (45 min)'',
                        ''Functional Training (50 min)'']),
          (''Low'', [''Light Weight Training (30 min)'', ''Mobility Work (25 min)'',
                     ''Core Strength (20 min)''])]),
     (2, [(''High'', [''Interval Training (40 min)'', ''Full Body Circuit (45 min)'',
                      ''Spin Class (50 min)'']),
          (''Medium'', [''Jogging (35 min)'', ''Bodyweight Exercises (30 min)'',
                        ''Pilates (40 min)'']),
          (''Low'', [''Walking (25 min)'', ''Gentle Yoga (30 min)'', ''Stretching (20 min)''])]),
     (3, [(''High'', [''Beginner HIIT (25 min)'', ''Light Circuit (30 min)'',
                      ''Brisk Walking Hills (30 min)'']),
          (''Medium'', [''Beginner Strength (30 min)'', ''Low-Impact Cardio (25 min)'',
                        ''Basic Yoga (30 min)'']),
          (''Low'', [''Gentle Walking (20 min)'', ''Chair Exercises (15 min)'',
                     ''Breathing Exercises (10 min)''])]),
     (4, [(''High'', [''Water Aerobics (30 min)'', ''Recumbent Bike (25 min)'',
                      ''Resistance Bands (20 min)'']),
          (''Medium'', [''Gentle Walking (20 min)'', ''Chair Yoga (25 min)'',
                        ''Balance Training (20 min)'']),
          (''Low'', [''Stretching (15 min)'', ''Seated Exercises (15 min)'',
                     ''Meditation (10 min)''])])]"

text \<open>
  \<^verbatim>\<open>return workouts.get(cluster_id, workouts[2]).get(difficulty, workouts[cluster_id]['Medium'])\<close>

  Both defaults are evaluated before the \<^verbatim>\<open>get\<close> they are passed to:
  first \<^verbatim>\<open>workouts[2]\<close>, then the outer lookup, then
  \<^verbatim>\<open>workouts[cluster_id]\<close> and its \<^verbatim>\<open>['Medium']\<close>, then the inner lookup.
\<close>

definition get_workout_recommendations :: "int \<Rightarrow> string \<Rightarrow> py_error + string list" where
  "get_workout_recommendations cluster_id difficulty =
     (case dict_index workouts 2 of
        Inl e \<Rightarrow> Inl e
      | Inr fallback \<Rightarrow>
          let menu = dict_get workouts cluster_id fallback in
          (case dict_index workouts cluster_id of
             Inl e \<Rightarrow> Inl e
           | Inr own \<Rightarrow>
               (case dict_index own ''Medium'' of
                  Inl e \<Rightarrow> Inl e
                | Inr medium \<Rightarrow> Inr (dict_get menu difficulty medium))))"

subsection \<open>Diet plans\<close>

record diet_plan =
  calories :: string
  protein :: string
  carbs :: string
  fats :: string
  meals :: "string list"

definition diets :: "(string \<times> diet_plan) list" where
  "diets =
    [(''Weight Loss'',
      \<lparr>calories = ''1500-1800 kcal/day'', protein = ''1.8-2.2g/kg bodyweight'',
       carbs = ''100-150g/day'', fats = ''40-60g/day'',
       meals = [''Breakfast: Oatmeal with berries'', ''Lunch: Grilled chicken salad'',
                ''Dinner: Salmon with vegetables'', ''Snacks: Greek yogurt, almonds'']\<rparr>),
     (''Muscle Gain'',
      \<lparr>calories = ''2500-3200 kcal/day'', protein = ''2.0-2.5g/kg bodyweight'',
       carbs = ''300-450g/day'', fats = ''70-100g/day'',
       meals = [''Breakfast: Eggs, whole grain toast, avocado'',
                ''Lunch: Rice, chicken, vegetables'', ''Dinner: Steak, sweet potato, broccoli'',
                ''Snacks: Protein shake, nuts, banana'']\<rparr>),
     (''Maintenance'',
      \<lparr>calories = ''2000-2400 kcal/day'', protein = ''1.5-1.8g/kg bodyweight'',
       carbs = ''200-280g/day'', fats = ''55-75g/day'',
       meals = [''Breakfast: Smoothie bowl with granola'',
                ''Lunch: Turkey wrap with vegetables'', ''Dinner: Pasta with lean meat sauce'',
                ''Snacks: Fruit, trail mix'']\<rparr>),
     (''Endurance'',
      \<lparr>calories = ''2800-3500 kcal/day'', protein = ''1.4-1.8g/kg bodyweight'',
       carbs = ''400-600g/day'', fats = ''60-90g/day'',
       meals = [''Breakfast: Pancakes with maple syrup'', ''Lunch: Quinoa bowl with chicken'',
                ''Dinner: Pasta with vegetables'',
                ''Snacks: Energy bars, dried fruit, sports drinks'']\<rparr>)]"

text \<open>
  \<^verbatim>\<open>return diets.get(goal, diets['Maintenance'])\<close>; the parameter
  \<^verbatim>\<open>cluster_id\<close> is not read.
\<close>

definition get_diet_plan :: "int \<Rightarrow> string \<Rightarrow> py_error + diet_plan" where
  "get_diet_plan cluster_id goal =
     (case dict_index diets ''Maintenance'' of
        Inl e \<Rightarrow> Inl e
      | Inr maintenance \<Rightarrow> Inr (dict_get diets goal maintenance))"

subsection \<open>Body mass index and calorie burn\<close>

text \<open>\<^verbatim>\<open>weight_kg / (height_m ** 2)\<close>; a zero divisor raises.\<close>

definition calculate_bmi :: "real \<Rightarrow> real \<Rightarrow> py_error + real" where
  "calculate_bmi weight_kg height_m =
     (if height_m ^ 2 = 0 then Inl ZeroDivisionError else Inr (weight_kg / height_m ^ 2))"

text \<open>
  \<^verbatim>\<open>round(x, ndigits)\<close> on a float: the nearest multiple of \<open>10 ^ (- ndigits)\<close>, a
  tie going to the multiple whose last digit is even.
\<close>

definition py_round :: "real \<Rightarrow> nat \<Rightarrow> real" where
  "py_round x ndigits =
     (let scaled = x * 10 ^ ndigits;
          lower = \<lfloor>scaled\<rfloor>;
          frac = scaled - of_int lower;
          nearest = (if frac < 1 / 2 then lower
                     else if 1 / 2 < frac then lower + 1
                     else if even lower then lower else lower + 1)
      in of_int nearest / 10 ^ ndigits)"

definition met_values :: "(string \<times> real) list" where
  "met_values = [(''Low'', 3.5), (''Medium'', 6.0), (''High'', 8.5), (''Very High'', 10.5)]"

definition calculate_calories_burned :: "real \<Rightarrow> string \<Rightarrow> real \<Rightarrow> real \<Rightarrow> real" where
  "calculate_calories_burned duration intensity weight age =
     (let met = dict_get met_values intensity 6.0;
          burned = (met * 3.5 * weight / 200) * duration
      in py_round burned 2)"

subsection \<open>Predictions page: calories burned\<close>

definition workout_factors :: "(string \<times> real) list" where
  "workout_factors =
     [(''Cardio'', 1.2), (''Strength'', 0.9), (''HIIT'', 1.5), (''Yoga'', 0.6), (''Sports'', 1.3)]"

text \<open>
  The handler of the button "Calculate Calories Burned": the helper's rounded value is
  multiplied by the gender factor, then by the workout-type factor.
\<close>

definition predict_calories ::
  "real \<Rightarrow> real \<Rightarrow> real \<Rightarrow> string \<Rightarrow> string \<Rightarrow> string \<Rightarrow> real" where
  "predict_calories age weight duration gender intensity workout_type =
     (let burned = calculate_calories_burned duration intensity weight age;
          gender_factor = (if gender = ''Male'' then 1.1 else 1.0)
      in burned * gender_factor * dict_get workout_factors workout_type 1.0)"

subsection \<open>Predictions page: workout impact\<close>

text \<open>
  \<^verbatim>\<open>range(start, stop, step)\<close> for a positive step, which is all the handler asks
  for: its step is \<^verbatim>\<open>max(1, weeks // 10)\<close>.
\<close>

function range_up :: "int \<Rightarrow> int \<Rightarrow> int \<Rightarrow> int list" where
  "range_up i stop step =
     (if 0 < step \<and> i < stop then i # range_up (i + step) stop step else [])"
  by pat_completeness auto
termination
  by (relation "measure (\<lambda>(i, stop, step). nat (stop - i))") auto

text \<open>
  \<^verbatim>\<open>timeline = list(range(0, weeks + 1, max(1, weeks // 10)))\<close>; the step is named
  so that properties can speak of it.
\<close>

definition timeline_step :: "int \<Rightarrow> int" where
  "timeline_step weeks = max 1 (weeks div 10)"

definition timeline :: "int \<Rightarrow> int list" where
  "timeline weeks = range_up 0 (weeks + 1) (timeline_step weeks)"




subsection \<open>Fitness Profiles page: cluster assignment\<close>

record profile_form =
  user_bpm :: int
  user_duration :: int
  user_frequency :: int
  user_experience :: string
  user_intensity :: string

text \<open>The \<^verbatim>\<open>if\<close>/\<open>elif\<close> chain of the handler, for a body mass index already computed.\<close>

definition assign_cluster :: "real \<Rightarrow> profile_form \<Rightarrow> int" where
  "assign_cluster bmi f =
     (if 175 < user_bpm f \<and> user_experience f = ''Elite'' \<and> 60 < user_duration f then 0
      else if user_experience f \<in> set [''Advanced'', ''Elite'']
              \<and> user_intensity f \<in> set [''High'', ''Very High''] then 1
      else if user_experience f = ''Intermediate'' \<and> 3 \<le> user_frequency f then 2
      else if user_experience f = ''Beginner'' \<or> user_frequency f \<le> 2 then 3
      else (if 30 < bmi then 4 else 2))"

definition find_fitness_profile :: "real \<Rightarrow> real \<Rightarrow> profile_form \<Rightarrow> py_error + int" where
  "find_fitness_profile user_weight user_height f =
     (case calculate_bmi user_weight user_height of
        Inl e \<Rightarrow> Inl e
      | Inr bmi \<Rightarrow> Inr (assign_cluster bmi f))"

text \<open>
  The classifier as the specification words it: a list of rules in priority order, each a
  condition and an archetype, the first rule whose condition holds giving the result.
\<close>

definition rule1 :: "real \<Rightarrow> profile_form \<Rightarrow> bool" where
  "rule1 bmi f = (175 < user_bpm f \<and> user_experience f = ''Elite'' \<and> 60 < user_duration f)"

definition rule2 :: "real \<Rightarrow> profile_form \<Rightarrow> bool" where
  "rule2 bmi f = ((user_experience f = ''Advanced'' \<or> user_experience f = ''Elite'')
                  \<and> (user_intensity f = ''High'' \<or> user_intensity f = ''Very High''))"

definition rule3 :: "real \<Rightarrow> profile_form \<Rightarrow> bool" where
  "rule3 bmi f = (user_experience f = ''Intermediate'' \<and> 3 \<le> user_frequency f)"

definition rule4 :: "real \<Rightarrow> profile_form \<Rightarrow> bool" where
  "rule4 bmi f = (user_experience f = ''Beginner'' \<or> user_frequency f \<le> 2)"

definition archetype_rules ::
  "((real \<Rightarrow> profile_form \<Rightarrow> bool) \<times> (real \<Rightarrow> profile_form \<Rightarrow> int)) list" where
  "archetype_rules =
     [(rule1, \<lambda>bmi f. 0), (rule2, \<lambda>bmi f. 1), (rule3, \<lambda>bmi f. 2), (rule4, \<lambda>bmi f. 3),
      (\<lambda>bmi f. True, \<lambda>bmi f. if 30 < bmi then 4 else 2)]"

fun first_match ::
  "((real \<Rightarrow> profile_form \<Rightarrow> bool) \<times> (real \<Rightarrow> profile_form \<Rightarrow> int)) list
     \<Rightarrow> real \<Rightarrow> profile_form \<Rightarrow> int option" where
  "first_match [] bmi f = None"
| "first_match ((cond, result) # rules) bmi f =
     (if cond bmi f then Some (result bmi f) else first_match rules bmi f)"

subsection \<open>Workout Recommender page: weekly schedule\<close>

definition days :: "string list" where
  "days = [''Monday'', ''Tuesday'', ''Wednesday'', ''Thursday'', ''Friday'', ''Saturday'',
           ''Sunday'']"

text \<open>The string \<^verbatim>\<open>"Rest Day "\<close> followed by the four UTF-8 bytes of U+1F634.\<close>

definition rest_day :: string where
  "rest_day = ''Rest Day '' @ [CHR 0xF0, CHR 0x9F, CHR 0x98, CHR 0xB4]"

text \<open>The slices \<^verbatim>\<open>xs[:n]\<close> and \<^verbatim>\<open>xs[n:]\<close>; a negative bound counts from the end.\<close>

definition slice_to :: "'a list \<Rightarrow> int \<Rightarrow> 'a list" where
  "slice_to xs n = (if n < 0 then take (length xs - nat (- n)) xs else take (nat n) xs)"

definition slice_from :: "'a list \<Rightarrow> int \<Rightarrow> 'a list" where
  "slice_from xs n = (if n < 0 then drop (length xs - nat (- n)) xs else drop (nat n) xs)"

text \<open>\<^verbatim>\<open>d[k] = v\<close> on an insertion-ordered dictionary.\<close>

definition dict_set :: "('k \<times> 'v) list \<Rightarrow> 'k \<Rightarrow> 'v \<Rightarrow> ('k \<times> 'v) list" where
  "dict_set d k v =
     (if k \<in> fst ` set d then map (\<lambda>(k', v'). if k' = k then (k', v) else (k', v')) d
      else d @ [(k, v)])"

text \<open>
  The first loop of the handler, over \<^verbatim>\<open>enumerate(days[:workout_days])\<close>; the list
  of workouts is called \<open>plan\<close> here.  \<^verbatim>\<open>i % len(workouts)\<close> raises on an empty list.
\<close>

fun training_loop ::
  "string list \<Rightarrow> (nat \<times> string) list \<Rightarrow> (string \<times> string) list
     \<Rightarrow> py_error + (string \<times> string) list" where
  "training_loop plan [] workout_schedule = Inr workout_schedule"
| "training_loop plan ((i, day) # rest) workout_schedule =
     (if length plan = 0 then Inl ZeroDivisionError
      else training_loop plan rest
             (dict_set workout_schedule day
                (if i mod 2 = 0 then plan ! (i mod length plan)
                 else plan ! ((i + 1) mod length plan))))"

text \<open>The second loop, over \<^verbatim>\<open>days[workout_days:]\<close>.\<close>

fun rest_loop :: "string list \<Rightarrow> (string \<times> string) list \<Rightarrow> (string \<times> string) list" where
  "rest_loop [] workout_schedule = workout_schedule"
| "rest_loop (day # rest) workout_schedule =
     rest_loop rest (dict_set workout_schedule day rest_day)"

definition weekly_schedule :: "string list \<Rightarrow> int \<Rightarrow> py_error + (string \<times> string) list" where
  "weekly_schedule plan workout_days =
     (case training_loop plan (enumerate 0 (slice_to days workout_days)) [] of
        Inl e \<Rightarrow> Inl e
      | Inr workout_schedule \<Rightarrow> Inr (rest_loop (slice_from days workout_days) workout_schedule))"

text \<open>The schedule for a cluster and a difficulty: the menu lookup, then the two loops.\<close>

definition build_schedule ::
  "int \<Rightarrow> string \<Rightarrow> int \<Rightarrow> py_error + (string \<times> string) list" where
  "build_schedule cluster difficulty_pref workout_days =
     (case get_workout_recommendations cluster difficulty_pref of
        Inl e \<Rightarrow> Inl e
      | Inr plan \<Rightarrow> weekly_schedule plan workout_days)"

definition exp_to_cluster :: "(string \<times> int) list" where
  "exp_to_cluster = [(''Beginner'', 3), (''Intermediate'', 2), (''Advanced'', 1), (''Elite'', 0)]"

text \<open>The handler of the button "Generate Workout Plan", up to the schedule.\<close>

definition generate_workout_plan ::
  "string \<Rightarrow> string \<Rightarrow> int \<Rightarrow> py_error + (string \<times> string) list" where
  "generate_workout_plan workout_experience difficulty_pref workout_days =
     (case dict_index exp_to_cluster workout_experience of
        Inl e \<Rightarrow> Inl e
      | Inr cluster \<Rightarrow> build_schedule cluster difficulty_pref workout_days)"

subsection \<open>The tables and rules as the specification words them\<close>






section \<open>Properties\<close>

subsection \<open>Workout menu lookup\<close>

lemma workouts_keys: "map fst workouts = [0, 1, 2, 3, 4]"
  by (simp add: workouts_def)

lemma workouts_unknown:
  assumes "c \<notin> {0, 1, 2, 3, 4}"
  shows "map_of workouts c = None"
proof -
  have "fst ` set workouts = set (map fst workouts)"
    by simp
  also have "\<dots> = {0, 1, 2, 3, 4}"
    unfolding workouts_keys by simp
  finally show ?thesis
    using assms by (simp only: map_of_eq_None_iff not_False_eq_True)
qed

lemma dict_index_error: "dict_index d k = Inl e \<Longrightarrow> e = KeyError"
  by (simp add: dict_index_def split: option.splits)

text \<open>
  Claim C9.  For a cluster id outside 0..4 the lookup raises \<^verbatim>\<open>KeyError\<close> whatever the
  difficulty is, since the default \<^verbatim>\<open>workouts[cluster_id]['Medium']\<close> is evaluated
  before the inner \<^verbatim>\<open>get\<close>; for a cluster id in 0..4 a difficulty that is not a key
  yields that cluster's Medium list.
\<close>

theorem get_workout_recommendations_unknown:
  "(cluster_id \<notin> {0, 1, 2, 3, 4} \<longrightarrow>
      get_workout_recommendations cluster_id difficulty = Inl KeyError) \<and>
   (cluster_id \<in> {0, 1, 2, 3, 4} \<and> difficulty \<notin> {''High'', ''Medium'', ''Low''} \<longrightarrow>
      (\<exists>own medium. map_of workouts cluster_id = Some own \<and>
         map_of own ''Medium'' = Some medium \<and>
         get_workout_recommendations cluster_id difficulty = Inr medium))"
proof (intro conjI impI)
  assume "cluster_id \<notin> {0, 1, 2, 3, 4}"
  then have "map_of workouts cluster_id = None"
    by (rule workouts_unknown)
  then have "dict_index workouts cluster_id = Inl KeyError"
    by (simp add: dict_index_def)
  then show "get_workout_recommendations cluster_id difficulty = Inl KeyError"
    by (auto simp add: get_workout_recommendations_def Let_def split: sum.splits
        dest: dict_index_error)
next
  assume a: "cluster_id \<in> {0, 1, 2, 3, 4} \<and> difficulty \<notin> {''High'', ''Medium'', ''Low''}"
  then have d: "difficulty \<noteq> ''High''" "difficulty \<noteq> ''Medium''" "difficulty \<noteq> ''Low''"
    by simp_all
  from a consider "cluster_id = 0" | "cluster_id = 1" | "cluster_id = 2"
    | "cluster_id = 3" | "cluster_id = 4"
    by auto
  then show "\<exists>own medium. map_of workouts cluster_id = Some own \<and>
         map_of own ''Medium'' = Some medium \<and>
         get_workout_recommendations cluster_id difficulty = Inr medium"
    using d
    by cases
      (simp_all add: get_workout_recommendations_def workouts_def dict_index_def dict_get_def)
qed

theorem get_workout_recommendations_unknown_witness:
  "get_workout_recommendations 7 ''High'' = Inl KeyError \<and>
   get_workout_recommendations 3 ''Extreme'' =
     Inr [''Beginner Strength (30 min)'', ''Low-Impact Cardio (25 min)'', ''Basic Yoga (30 min)'']"
  using get_workout_recommendations_unknown [of 7 "''High''"]
    get_workout_recommendations_unknown [of 3 "''Extreme''"]
  by (simp add: workouts_def)

subsection \<open>Diet plan lookup\<close>

text \<open>
  Claim C4.  The plan returned depends on the goal only: two calls that differ in the
  cluster id return the same plan, and a goal that is not one of the four keys returns
  the Maintenance plan.
\<close>

theorem get_diet_plan_goal_only:
  "get_diet_plan c1 goal = get_diet_plan c2 goal \<and>
   (goal \<notin> {''Weight Loss'', ''Muscle Gain'', ''Maintenance'', ''Endurance''} \<longrightarrow>
      (\<exists>maintenance. map_of diets ''Maintenance'' = Some maintenance \<and>
         get_diet_plan c1 goal = Inr maintenance))"
  by (simp add: get_diet_plan_def diets_def dict_index_def dict_get_def)

theorem get_diet_plan_goal_only_witness:
  "get_diet_plan 0 ''Keto'' = get_diet_plan 4 ''Keto'' \<and>
   (\<exists>maintenance. map_of diets ''Maintenance'' = Some maintenance \<and>
      get_diet_plan 0 ''Keto'' = Inr maintenance)"
  using get_diet_plan_goal_only [of 0 "''Keto''" 4]
  by auto

subsection \<open>Cluster assignment\<close>

text \<open>
  Claim C2.  The \<^verbatim>\<open>if\<close>/\<open>elif\<close> chain is the first match over the priority-ordered
  rule list; whenever the condition of rule 1 holds the result is 0, whatever rule 2
  says; a result produced by a later rule means that every earlier condition failed; and
  the result is one of 0, 1, 2, 3, 4.
\<close>

theorem assign_cluster_first_match:
  "first_match archetype_rules bmi f = Some (assign_cluster bmi f) \<and>
   (175 < user_bpm f \<and> user_experience f = ''Elite'' \<and> 60 < user_duration f \<longrightarrow>
      assign_cluster bmi f = 0) \<and>
   (assign_cluster bmi f = 1 \<longrightarrow> \<not> rule1 bmi f) \<and>
   (assign_cluster bmi f = 2 \<longrightarrow> \<not> rule1 bmi f \<and> \<not> rule2 bmi f) \<and>
   (assign_cluster bmi f = 3 \<longrightarrow> \<not> rule1 bmi f \<and> \<not> rule2 bmi f \<and> \<not> rule3 bmi f) \<and>
   (assign_cluster bmi f = 4 \<longrightarrow>
      \<not> rule1 bmi f \<and> \<not> rule2 bmi f \<and> \<not> rule3 bmi f \<and> \<not> rule4 bmi f) \<and>
   assign_cluster bmi f \<in> {0, 1, 2, 3, 4}"
  by (simp add: archetype_rules_def assign_cluster_def rule1_def rule2_def rule3_def rule4_def)

theorem assign_cluster_first_match_witness:
  "assign_cluster 22 \<lparr>user_bpm = 180, user_duration = 90, user_frequency = 5,
      user_experience = ''Elite'', user_intensity = ''High''\<rparr> = 0 \<and>
   rule2 22 \<lparr>user_bpm = 180, user_duration = 90, user_frequency = 5,
      user_experience = ''Elite'', user_intensity = ''High''\<rparr>"
  using assign_cluster_first_match [of 22 "\<lparr>user_bpm = 180, user_duration = 90,
      user_frequency = 5, user_experience = ''Elite'', user_intensity = ''High''\<rparr>"]
  by (simp add: rule2_def)

subsection \<open>Calorie estimate\<close>





text \<open>
  Claim C10.  The estimate does not depend on the age argument.
\<close>

theorem calories_age_independent:
  "calculate_calories_burned duration intensity weight a1 =
   calculate_calories_burned duration intensity weight a2"
  by (simp add: calculate_calories_burned_def)

theorem calories_age_independent_witness:
  "calculate_calories_burned 45 ''High'' 70 18 = calculate_calories_burned 45 ''High'' 70 80"
  by (rule calories_age_independent)

text \<open>
  Claim C5, as stated: the evaluation at duration 45, Medium, 70 kg, age 30, Male, Cardio
  has rounded base 66.15 and result 87.32.  It has neither: \<open>6.0 * 3.5 * 70 / 200\<close> is
  7.35, and 66.15 is 7.35 times 9, not times 45.
\<close>

theorem calories_example_counterexample:
  "calculate_calories_burned 45 ''Medium'' 70 30 \<noteq> 66.15 \<and>
   predict_calories 30 70 45 ''Male'' ''Medium'' ''Cardio'' \<noteq> 87.32"
  by (simp add: predict_calories_def workout_factors_def calculate_calories_burned_def
      met_values_def dict_get_def py_round_def)

text \<open>
  Claim C5, amended: at that input the rounded base is 330.75 and the value after the
  factors 1.1 and 1.2 is 436.59.
\<close>

theorem calories_example:
  "calculate_calories_burned 45 ''Medium'' 70 30 = 330.75 \<and>
   predict_calories 30 70 45 ''Male'' ''Medium'' ''Cardio'' = 436.59"
  by (simp add: predict_calories_def workout_factors_def calculate_calories_burned_def
      met_values_def dict_get_def py_round_def)

subsection \<open>Weight projection\<close>




subsection \<open>Body mass index\<close>



subsection \<open>Timeline sampling\<close>

lemma tl_eq: "timeline weeks = range_up 0 (weeks + 1) (timeline_step weeks)"
  by (simp add: timeline_def)

lemma range_up_multiples:
  "0 < s \<Longrightarrow> i + (int n - 1) * s < stop \<Longrightarrow> stop \<le> i + int n * s
     \<Longrightarrow> range_up i stop s = map (\<lambda>k. i + int k * s) [0..<n]"
proof (induction n arbitrary: i)
  case 0
  then show ?case by simp
next
  case (Suc n)
  from Suc.prems have "i < stop"
    by (smt (verit) mult_nonneg_nonneg of_nat_0_le_iff of_nat_Suc)
  with Suc.prems have "range_up i stop s = i # range_up (i + s) stop s"
    by simp
  also have "range_up (i + s) stop s = map (\<lambda>k. (i + s) + int k * s) [0..<n]"
    using Suc.prems by (intro Suc.IH) (simp_all add: algebra_simps)
  also have "i # \<dots> = map (\<lambda>k. i + int k * s) [0..<Suc n]"
    by (simp add: map_upt_Suc algebra_simps del: upt_Suc)
  finally show ?case .
qed

lemma step_pos: "0 < timeline_step weeks"
  by (simp add: timeline_step_def)

lemma div_below_twenty:
  fixes w q :: int
  assumes "0 < q" and "w < 20 * q"
  shows "w div q \<le> 19"
proof (rule ccontr)
  assume "\<not> w div q \<le> 19"
  then have "20 \<le> w div q"
    by simp
  with assms(1) have "20 * q \<le> (w div q) * q"
    by (simp add: mult_right_mono)
  moreover have "w div q * q + w mod q = w"
    by (rule div_mult_mod_eq)
  moreover from assms(1) have "0 \<le> w mod q"
    by simp
  ultimately show False
    using assms(2) by linarith
qed

lemma samples_bound:
  assumes "0 \<le> weeks"
  shows "weeks div timeline_step weeks \<le> 19"
proof (cases "weeks < 10")
  case True
  with assms have "weeks div 10 = 0"
    by simp
  then have "timeline_step weeks = 1"
    by (simp add: timeline_step_def)
  with True show ?thesis
    by simp
next
  case False
  then have q: "1 \<le> weeks div 10"
    by simp
  then have s: "timeline_step weeks = weeks div 10"
    by (simp add: timeline_step_def)
  have "weeks = (weeks div 10) * 10 + weeks mod 10"
    by simp
  also have "\<dots> < (weeks div 10) * 10 + 10"
    by simp
  also from q have "\<dots> \<le> 20 * (weeks div 10)"
    by simp
  finally have "weeks < 20 * (weeks div 10)" .
  with q show ?thesis
    unfolding s by (intro div_below_twenty) simp_all
qed

lemma timeline_multiples:
  assumes "0 \<le> weeks"
  shows "timeline weeks =
           map (\<lambda>k. int k * timeline_step weeks) [0..<Suc (nat (weeks div timeline_step weeks))]"
proof -
  let ?s = "timeline_step weeks"
  let ?n = "Suc (nat (weeks div ?s))"
  have pos: "0 < ?s"
    by (rule step_pos)
  with assms have nn: "0 \<le> weeks div ?s"
    by (simp add: pos_imp_zdiv_nonneg_iff)
  have w: "weeks div ?s * ?s + weeks mod ?s = weeks"
    by (rule div_mult_mod_eq)
  from pos have m: "0 \<le> weeks mod ?s" "weeks mod ?s < ?s"
    by simp_all
  from nn have n: "int ?n = weeks div ?s + 1"
    by simp
  from w m have below: "weeks div ?s * ?s \<le> weeks"
    by linarith
  from w m have above: "weeks + 1 \<le> weeks div ?s * ?s + ?s"
    by linarith
  from below have lo: "0 + (int ?n - 1) * ?s < weeks + 1"
    unfolding n by simp
  from above have hi: "weeks + 1 \<le> 0 + int ?n * ?s"
    unfolding n by (simp add: algebra_simps)
  from range_up_multiples [OF pos lo hi] show ?thesis
    by (simp add: tl_eq)
qed

text \<open>
  Claim C6, as stated: for every number of weeks the series runs from week 0 up to and
  including the final week, has at most 10 points besides week 0, and ends with the final
  week.  At 25 weeks the step is 2: the series has 12 points besides week 0 and ends
  with week 24.
\<close>

theorem timeline_counterexample:
  "timeline 25 = [0, 2, 4, 6, 8, 10, 12, 14, 16, 18, 20, 22, 24] \<and>
   \<not> length (timeline 25) - 1 \<le> 10 \<and> last (timeline 25) \<noteq> 25"
  by (simp add: timeline_def timeline_step_def)

text \<open>
  Claim C6, amended: for a negative number of weeks the series is empty; otherwise it is
  the multiples of the step \<open>max 1 (weeks div 10)\<close> from 0 that do not exceed the weeks.
  It starts with week 0, has \<open>weeks div step\<close> points besides week 0, at most 19, and
  its last entry is \<open>step * (weeks div step)\<close>, which is the final week exactly when the
  step divides the number of weeks.
\<close>

theorem timeline_samples:
  "(weeks < 0 \<longrightarrow> timeline weeks = []) \<and>
   (0 \<le> weeks \<longrightarrow>
      timeline weeks =
        map (\<lambda>k. int k * timeline_step weeks) [0..<Suc (nat (weeks div timeline_step weeks))] \<and>
      hd (timeline weeks) = 0 \<and>
      int (length (timeline weeks)) - 1 = weeks div timeline_step weeks \<and>
      int (length (timeline weeks)) - 1 \<le> 19 \<and>
      last (timeline weeks) = timeline_step weeks * (weeks div timeline_step weeks) \<and>
      (last (timeline weeks) = weeks \<longleftrightarrow> timeline_step weeks dvd weeks))"
proof (intro conjI impI)
  assume "weeks < 0"
  then show "timeline weeks = []"
    by (simp add: tl_eq)
next
  assume w: "0 \<le> weeks"
  let ?s = "timeline_step weeks"
  let ?n = "nat (weeks div ?s)"
  have pos: "0 < ?s"
    by (rule step_pos)
  with w have nn: "0 \<le> weeks div ?s"
    by (simp add: pos_imp_zdiv_nonneg_iff)
  show m: "timeline weeks = map (\<lambda>k. int k * ?s) [0..<Suc ?n]"
    using w by (rule timeline_multiples)
  show "hd (timeline weeks) = 0"
    unfolding m by (simp add: hd_map upt_conv_Cons del: upt_Suc)
  show len: "int (length (timeline weeks)) - 1 = weeks div ?s"
    unfolding m using nn by simp
  show "int (length (timeline weeks)) - 1 \<le> 19"
    unfolding len using w by (rule samples_bound)
  show l: "last (timeline weeks) = ?s * (weeks div ?s)"
    unfolding m using nn by (simp add: last_map)
  show "last (timeline weeks) = weeks \<longleftrightarrow> ?s dvd weeks"
    unfolding l by (metis dvd_triv_left dvd_mult_div_cancel)
qed

theorem timeline_samples_witness:
  "timeline 30 = [0, 3, 6, 9, 12, 15, 18, 21, 24, 27, 30] \<and> timeline (- 1) = [] \<and>
   last (timeline 30) = 30"
  using timeline_samples [of 30] timeline_samples [of "- 1"]
  by (simp add: timeline_step_def upt_conv_Cons del: upt_Suc)

subsection \<open>Weekly schedule\<close>







text \<open>
  What the parity rule does to neighbouring days: index 1 picks \<open>list[2 % len]\<close> and so
  does index 2, so Tuesday and Wednesday carry the same workout.
\<close>

lemma adjacent_days_coincide:
  "build_schedule 0 ''High'' 5 =
     Inr [(''Monday'', ''HIIT Training (45 min)''), (''Tuesday'', ''CrossFit WOD (60 min)''),
          (''Wednesday'', ''CrossFit WOD (60 min)''), (''Thursday'', ''HIIT Training (45 min)''),
          (''Friday'', ''HIIT Training (45 min)''), (''Saturday'', rest_day),
          (''Sunday'', rest_day)]"
  by (simp add: build_schedule_def get_workout_recommendations_def workouts_def dict_index_def
      dict_get_def weekly_schedule_def days_def slice_to_def slice_from_def dict_set_def)

end
